theory Spec2Isabelle
  imports Main
begin

text \<open>
  A model of the agent loop of ControlFlow (src/control\_flow/agent.py) and of its
  orchestrator events (src/controlflow/events/orchestrator\_events.py), with the properties
  the specification states about them. Pure code is a function; code that changes task
  objects, prints or records artifacts takes the world and returns the new one; a raised
  exception is the left summand of the result. A Python name that starts with an
  underscore is written without it (\<open>get_tools\<close> for \<open>_get_tools\<close>).
\<close>

section \<open>Orchestrator events (controlflow/events/orchestrator\_events.py)\<close>

text \<open>
  The module declares five pydantic classes, each a subclass of \<open>UnpersistedEvent\<close>.
  Every class has the fields \<open>event\<close> (a \<open>Literal\<close> with the class's tag as its
  default), \<open>persist\<close> (a \<open>bool\<close> with default \<open>False\<close>) and \<open>orchestrator\<close>
  (required); \<open>OrchestratorError\<close> has the required field \<open>error\<close>, and the two
  agent-turn classes have the required field \<open>agent\<close>. The classes \<open>Orchestrator\<close>,
  \<open>Agent\<close> (of \<open>controlflow.agents.agent\<close>) and \<open>Exception\<close> are declared elsewhere:
  they are the type parameters \<open>'o\<close>, \<open>'a\<close> and \<open>'x\<close>.

  The five classes are one tagged union; a field shared by several classes is one selector.
\<close>

datatype ('o, 'a, 'x) orchestrator_event =
    OrchestratorStart (event: string) (persist: bool) (orchestrator: 'o)
  | OrchestratorEnd (event: string) (persist: bool) (orchestrator: 'o)
  | OrchestratorError (event: string) (persist: bool) (orchestrator: 'o) (error: 'x)
  | AgentTurnStart (event: string) (persist: bool) (orchestrator: 'o) (agent: 'a)
  | AgentTurnEnd (event: string) (persist: bool) (orchestrator: 'o) (agent: 'a)

datatype pydantic_error = LiteralError

text \<open>
  Instantiating a pydantic class: a field with a default may be left out (\<open>None\<close> below)
  or given by keyword (\<open>Some v\<close>). A value given for a \<open>Literal\<close> field must be the
  literal; any \<open>bool\<close> given for \<open>persist\<close> is taken as it is.
\<close>

definition literal_field :: "string \<Rightarrow> string option \<Rightarrow> pydantic_error + string" where
  "literal_field lit given =
     (case given of
        None \<Rightarrow> Inr lit
      | Some v \<Rightarrow> if v = lit then Inr lit else Inl LiteralError)"

definition bool_field :: "bool \<Rightarrow> bool option \<Rightarrow> bool" where
  "bool_field dflt given = (case given of None \<Rightarrow> dflt | Some b \<Rightarrow> b)"

definition new_OrchestratorStart ::
  "string option \<Rightarrow> bool option \<Rightarrow> 'o \<Rightarrow> pydantic_error + ('o, 'a, 'x) orchestrator_event" where
  "new_OrchestratorStart ev p orch =
     (case literal_field ''orchestrator-start'' ev of
        Inl e \<Rightarrow> Inl e
      | Inr tag \<Rightarrow> Inr (OrchestratorStart tag (bool_field False p) orch))"

definition new_OrchestratorEnd ::
  "string option \<Rightarrow> bool option \<Rightarrow> 'o \<Rightarrow> pydantic_error + ('o, 'a, 'x) orchestrator_event" where
  "new_OrchestratorEnd ev p orch =
     (case literal_field ''orchestrator-end'' ev of
        Inl e \<Rightarrow> Inl e
      | Inr tag \<Rightarrow> Inr (OrchestratorEnd tag (bool_field False p) orch))"

definition new_OrchestratorError ::
  "string option \<Rightarrow> bool option \<Rightarrow> 'o \<Rightarrow> 'x \<Rightarrow> pydantic_error + ('o, 'a, 'x) orchestrator_event" where
  "new_OrchestratorError ev p orch err =
     (case literal_field ''orchestrator-error'' ev of
        Inl e \<Rightarrow> Inl e
      | Inr tag \<Rightarrow> Inr (OrchestratorError tag (bool_field False p) orch err))"

definition new_AgentTurnStart ::
  "string option \<Rightarrow> bool option \<Rightarrow> 'o \<Rightarrow> 'a \<Rightarrow> pydantic_error + ('o, 'a, 'x) orchestrator_event" where
  "new_AgentTurnStart ev p orch ag =
     (case literal_field ''agent-turn-start'' ev of
        Inl e \<Rightarrow> Inl e
      | Inr tag \<Rightarrow> Inr (AgentTurnStart tag (bool_field False p) orch ag))"

definition new_AgentTurnEnd ::
  "string option \<Rightarrow> bool option \<Rightarrow> 'o \<Rightarrow> 'a \<Rightarrow> pydantic_error + ('o, 'a, 'x) orchestrator_event" where
  "new_AgentTurnEnd ev p orch ag =
     (case literal_field ''agent-turn-end'' ev of
        Inl e \<Rightarrow> Inl e
      | Inr tag \<Rightarrow> Inr (AgentTurnEnd tag (bool_field False p) orch ag))"

section \<open>Python values, exceptions and calls (control\_flow/agent.py)\<close>

text \<open>
  The values that tools receive and return. Arguments of a tool call are decoded from JSON;
  \<open>PyObject\<close> stands for any other object, named by the text Python prints for it.
  No value of this type is callable and none has an attribute \<open>function\<close>.
\<close>

datatype pyval =
    PyNone
  | PyBool bool
  | PyInt int
  | PyStr string
  | PyList "pyval list"
  | PyDict "(string \<times> pyval) list"
  | PyObject string

datatype py_exception =
    TypeError
  | AttributeError
  | ValueError "string option"
  | ValidationError
  | EOFError
  | EndRunSignal

type_synonym 'a raises = "py_exception + 'a"

fun truthy :: "pyval \<Rightarrow> bool" where
  "truthy PyNone = False"
| "truthy (PyBool b) = b"
| "truthy (PyInt i) = (i \<noteq> 0)"
| "truthy (PyStr s) = (s \<noteq> [])"
| "truthy (PyList xs) = (xs \<noteq> [])"
| "truthy (PyDict kvs) = (kvs \<noteq> [])"
| "truthy (PyObject r) = True"

text \<open>
  Library functions of Python that the module calls and whose text depends on the value:
  \<open>str\<close> (used by \<open>str.format\<close> and by the template engine) and \<open>json.dumps\<close> with
  \<open>indent=2\<close>, which raises on a value that is not serialisable (\<open>None\<close> below).
\<close>

record py_builtins =
  py_str :: "pyval \<Rightarrow> string"
  json_dumps :: "pyval \<Rightarrow> string option"

definition nl :: char where
  "nl = CHR 0x0A"

text \<open>
  A signature with positional-or-keyword parameters only, each with an optional default.
  \<open>signature_bind\<close> is \<open>inspect.signature(f).bind(*args, **kwargs).arguments\<close>: the
  arguments that were passed, in parameter order, or a \<open>TypeError\<close> (too many positional
  arguments, an unknown keyword, a parameter given twice, a required parameter missing).
  \<open>apply_defaults\<close> is what the function's body then sees.
\<close>

type_synonym py_params = "(string \<times> pyval option) list"

definition signature_bind ::
  "py_params \<Rightarrow> pyval list \<Rightarrow> (string \<times> pyval) list \<Rightarrow> (string \<times> pyval) list raises" where
  "signature_bind ps args kwargs =
     (let names = map fst ps;
          positional = zip names args;
          given = positional @ kwargs
      in if length args > length ps then Inl TypeError
         else if list_ex (\<lambda>(k, v). k \<notin> set names) kwargs then Inl TypeError
         else if \<not> distinct (map fst given) then Inl TypeError
         else if list_ex (\<lambda>(k, d). d = None \<and> k \<notin> set (map fst given)) ps then Inl TypeError
         else Inr (concat (map (\<lambda>k. case map_of given k of None \<Rightarrow> [] | Some v \<Rightarrow> [(k, v)]) names)))"

definition apply_defaults :: "py_params \<Rightarrow> (string \<times> pyval) list \<Rightarrow> (string \<times> pyval) list" where
  "apply_defaults ps bound =
     concat (map (\<lambda>(k, d). case map_of bound k of
                               Some v \<Rightarrow> [(k, v)]
                             | None \<Rightarrow> (case d of Some v \<Rightarrow> [(k, v)] | None \<Rightarrow> [])) ps)"

definition arg :: "(string \<times> pyval) list \<Rightarrow> string \<Rightarrow> pyval" where
  "arg bound k = (case map_of bound k of Some v \<Rightarrow> v | None \<Rightarrow> PyNone)"

section \<open>Tasks, artifacts and the world the agent runs in\<close>

datatype TaskStatus = PENDING | COMPLETED | FAILED

fun status_value :: "TaskStatus \<Rightarrow> string" where
  "status_value PENDING = ''pending''"
| "status_value COMPLETED = ''completed''"
| "status_value FAILED = ''failed''"

text \<open>
  Modelled from the spec: the class \<open>AITask\<close> (control\_flow/task.py) is not among the
  sources. Its fields are those of section 3 of the specification, which are also the ones
  the instruction template and \<open>run_agent\<close> read. \<open>task_cast\<close> is the result type the
  task was created with (\<open>AITask[cast]\<close>): \<open>None\<close> for no result, or the coercion to the
  type, which fails on a value that does not conform.
\<close>

record AITask =
  task_objective :: string
  task_status :: TaskStatus
  task_result :: pyval
  task_error :: "string option"
  task_context :: "(string \<times> pyval) list option"
  task_instructions :: "string option"
  task_cast :: "(pyval \<Rightarrow> pyval option) option"

datatype artifact_kind = MarkdownArtifact | JsonArtifact

record artifact =
  artifact_kind :: artifact_kind
  artifact_key :: string
  artifact_body :: pyval
  artifact_description :: "string option"

text \<open>
  Task objects are shared and mutated in place: the agent, \<open>run_agent\<close> and the tools all
  hold references to the same objects. A reference is a number and \<open>task_store\<close> maps it
  to the object's present state; \<open>next_task\<close> is the reference the next task object
  created will get. \<open>backend\<close> is whatever state the model service keeps
  (threads, messages); \<open>console_out\<close> (the objects printed) and \<open>console_in\<close> (the
  lines still to be read) are the terminal of \<open>talk_to_human\<close>.
\<close>

record 'e world =
  task_store :: "nat \<Rightarrow> AITask"
  next_task :: nat
  artifacts :: "artifact list"
  console_out :: "pyval list"
  console_in :: "string list"
  backend :: 'e

text \<open>
  Modelled from the spec: \<open>create_markdown_artifact\<close> and \<open>create_json_artifact\<close>
  (control\_flow/utilities/prefect.py) are not among the sources. Section 6 of the
  specification describes the artifact sink as fire-and-forget: a call records the
  artifact and returns.
\<close>

definition create_markdown_artifact :: "string \<Rightarrow> string \<Rightarrow> 'e world \<Rightarrow> 'e world" where
  "create_markdown_artifact markdown k w =
     w\<lparr>artifacts := artifacts w @
          [\<lparr>artifact_kind = MarkdownArtifact, artifact_key = k,
            artifact_body = PyStr markdown, artifact_description = None\<rparr>]\<rparr>"

definition create_json_artifact :: "string \<Rightarrow> pyval \<Rightarrow> string \<Rightarrow> 'e world \<Rightarrow> 'e world" where
  "create_json_artifact k d descr w =
     w\<lparr>artifacts := artifacts w @
          [\<lparr>artifact_kind = JsonArtifact, artifact_key = k,
            artifact_body = d, artifact_description = Some descr\<rparr>]\<rparr>"

section \<open>Functions, tools, assistants, flows and agents\<close>

text \<open>
  A Python function that can stand behind a tool:
  \<^item> \<open>PyDef name doc params body\<close>: a \<open>def\<close> with its \<open>__name__\<close>, its \<open>__doc__\<close>, its
    signature and what its body does with the bound arguments;
  \<^item> \<open>CompleteTask ref task_id end_run\<close> and \<open>FailTask ref task_id end_run\<close>: the functions
    of the two tools of the task object \<open>ref\<close>;
  \<^item> \<open>SubAgentRun a\<close>: the closure \<open>_run\<close> that \<open>as_tool\<close> builds for the copy of the
    agent whose assistant is \<open>a\<close>;
  \<^item> \<open>PrefectTask original_fn name description\<close>: \<open>prefect_task(modified_fn, ...)\<close>, the
    closure \<open>modified_fn\<close> with the defaults of its keyword-only parameters:
    \<open>original_fn\<close>, and \<open>tool\<close>, of which the body reads \<open>tool.function.name\<close> and
    \<open>tool.function.description\<close>.

  An element of a tools list is an \<open>Assistant\<close>, a \<open>FunctionTool\<close> (name, description and
  \<open>_python_fn\<close> of its \<open>function\<close>), another \<open>AssistantTool\<close> (named by its type, for
  example the code interpreter), or a plain callable.
\<close>

datatype 'e python_fn =
    PyDef string "string option" py_params
      "(string \<times> pyval) list \<Rightarrow> 'e world \<Rightarrow> pyval raises \<times> 'e world"
  | CompleteTask nat nat bool
  | FailTask nat nat bool
  | SubAgentRun "'e assistant"
  | PrefectTask "'e python_fn" string "string option"
and 'e tool =
    AssistantT "'e assistant"
  | FunctionToolT string "string option" "'e python_fn"
  | AssistantToolT string
  | CallableT "'e python_fn"
and 'e assistant =
    Assistant (assistant_name: string) (assistant_instructions: "string option")
      (assistant_tools: "'e tool list") (assistant_model: "string option")

text \<open>
  Modelled from the spec: the class \<open>AIFlow\<close> (control\_flow/flow.py) is not among the
  sources. The fields are the ones agent.py reads: the flow's tools, instructions, model
  name, conversation thread and assistant.
\<close>

record 'e AIFlow =
  flow_tools :: "'e tool list"
  flow_instructions :: "string option"
  flow_model :: "string option"
  flow_thread :: nat
  flow_assistant :: "'e assistant option"

text \<open>
  The class \<open>Agent\<close>. \<open>agent_tasks\<close> holds references into \<open>task_store\<close>, in list order.
\<close>

record 'e Agent =
  agent_tasks :: "nat list"
  agent_flow :: "'e AIFlow"
  agent_assistant :: "'e assistant"
  agent_tools :: "'e tool list"
  agent_context :: "(string \<times> pyval) list"
  user_access :: bool
  system_access :: bool
  agent_instructions :: "string option"

subsection \<open>The module's own tools\<close>

definition talk_to_human :: "'e python_fn" where
  "talk_to_human =
     PyDef ''talk_to_human''
       (Some ([nl] @ ''    Send a message to the human user and optionally wait for a response.''
          @ [nl] @ ''    If `get_response` is True, the function will return the user's response,''
          @ [nl] @ ''    otherwise it will return a simple confirmation.'' @ [nl] @ ''    ''))
       [(''message'', None), (''get_response'', Some (PyBool True))]
       (\<lambda>bound w.
          let w1 = w\<lparr>console_out := console_out w @ [arg bound ''message'']\<rparr>
          in if truthy (arg bound ''get_response'')
             then (case console_in w1 of
                     [] \<Rightarrow> (Inl EOFError, w1\<lparr>console_out := console_out w1 @ [PyStr ''> '']\<rparr>)
                   | response # rest \<Rightarrow>
                       (Inr (PyStr response),
                        w1\<lparr>console_out := console_out w1 @ [PyStr ''> ''], console_in := rest\<rparr>))
             else (Inr (PyStr ''Message sent to user''), w1))"

definition end_run :: "'e python_fn" where
  "end_run =
     PyDef ''end_run'' (Some ''Use this tool to end the run.'') []
       (\<lambda>bound w. (Inr (PyObject ''EndRun()''), w))"

fun fn_name :: "'e python_fn \<Rightarrow> string" where
  "fn_name (PyDef n d ps body) = n"
| "fn_name (CompleteTask r i e) = ''complete''"
| "fn_name (FailTask r i e) = ''fail''"
| "fn_name (SubAgentRun a) = ''_run''"
| "fn_name (PrefectTask f n d) = ''modified_fn''"

fun fn_doc :: "'e python_fn \<Rightarrow> string option" where
  "fn_doc (PyDef n d ps body) = d"
| "fn_doc (CompleteTask r i e) = None"
| "fn_doc (FailTask r i e) = None"
| "fn_doc (SubAgentRun a) = None"
| "fn_doc (PrefectTask f n d) = None"

text \<open>
  \<open>marvin.utilities.tools.tool_from_function(fn, name=None, description=None)\<close>: the
  tool's name is the name given or the function's, and likewise its description.
\<close>

definition tool_from_function :: "'e python_fn \<Rightarrow> string option \<Rightarrow> string option \<Rightarrow> 'e tool" where
  "tool_from_function f name description =
     FunctionToolT (case name of Some n \<Rightarrow> n | None \<Rightarrow> fn_name f)
                   (case description of Some d \<Rightarrow> Some d | None \<Rightarrow> fn_doc f) f"

fun decimal_digits :: "nat \<Rightarrow> nat \<Rightarrow> string" where
  "decimal_digits 0 n = []"
| "decimal_digits (Suc fuel) n =
     (if n < 10 then [''0123456789'' ! n]
      else decimal_digits fuel (n div 10) @ [''0123456789'' ! (n mod 10)])"

definition str_nat :: "nat \<Rightarrow> string" where
  "str_nat n = decimal_digits (Suc n) n"

text \<open>
  Modelled from the spec: \<open>AITask._create_complete_tool\<close> and \<open>AITask._create_fail_tool\<close>
  (control\_flow/task.py) are not among the sources. By section 4.1 of the specification
  each returns a callable tool named for the task id; the tool remembers the task, the id
  and the \<open>end_run\<close> flag it was created with. The specification does not give the format
  of the name: the id is appended to a fixed prefix.
\<close>

definition create_complete_tool :: "nat \<Rightarrow> nat \<Rightarrow> bool \<Rightarrow> 'e tool" where
  "create_complete_tool ref task_id end_run_flag =
     tool_from_function (CompleteTask ref task_id end_run_flag)
       (Some (''complete_task_'' @ str_nat task_id)) None"

definition create_fail_tool :: "nat \<Rightarrow> nat \<Rightarrow> bool \<Rightarrow> 'e tool" where
  "create_fail_tool ref task_id end_run_flag =
     tool_from_function (FailTask ref task_id end_run_flag)
       (Some (''fail_task_'' @ str_nat task_id)) None"

subsection \<open>Agent.numbered\_tasks, Agent.as\_tool and Agent.\_get\_tools\<close>

definition numbered_tasks :: "'e Agent \<Rightarrow> (nat \<times> nat) list" where
  "numbered_tasks self = map (\<lambda>(i, task). (i + 1, task)) (enumerate 0 (agent_tasks self))"

definition opt_str :: "string option \<Rightarrow> string" where
  "opt_str s = (case s of None \<Rightarrow> ''None'' | Some t \<Rightarrow> t)"

text \<open>
  \<open>as_tool\<close> reads only the assistant of the agent it is called on; \<open>_get_tools\<close> calls
  it on a copy of the agent whose assistant is the \<open>Assistant\<close> found in the tools list.
  The thread that \<open>as_tool\<close> looks up in \<open>TEMP_THREADS\<close> belongs to the closure
  \<open>SubAgentRun\<close>.
\<close>

definition as_tool :: "'e Agent \<Rightarrow> 'e tool" where
  "as_tool self =
     tool_from_function (SubAgentRun (agent_assistant self))
       (Some (''call_ai_'' @ assistant_name (agent_assistant self)))
       (Some (''Use this tool to talk to a sub-AI that can operate independently of'' @ [nl]
          @ ''you. The sub-AI may have a different skillset or be able to access'' @ [nl]
          @ ''different tools than you. The sub-AI will run one iteration and'' @ [nl]
          @ ''respond to you. You may continue to invoke it multiple times in sequence, as'' @ [nl]
          @ ''needed. '' @ [nl] @ [nl]
          @ ''Note: you can only talk to one sub-AI at a time. Do not call in parallel or you will get an error about thread conflicts.''
          @ [nl] @ [nl] @ ''## Sub-AI Details'' @ [nl] @ [nl]
          @ ''- Name: '' @ assistant_name (agent_assistant self) @ [nl]
          @ ''- Instructions: '' @ opt_str (assistant_instructions (agent_assistant self))))"

text \<open>
  The body of the last loop of \<open>_get_tools\<close>, for one element of \<open>tools\<close>: an
  \<open>Assistant\<close> becomes the tool of a sub-agent, a plain callable becomes a function tool,
  and then every \<open>FunctionTool\<close> gets \<open>modified_fn\<close> for its \<open>_python_fn\<close>.
  In Python the assignment updates the \<open>FunctionTool\<close> object in place; the model returns
  the list the call returns and keeps the agent's own lists as they were.
\<close>

fun to_assistant_tool :: "'e Agent \<Rightarrow> 'e tool \<Rightarrow> 'e tool" where
  "to_assistant_tool self (AssistantT a) = as_tool (self\<lparr>agent_assistant := a\<rparr>)"
| "to_assistant_tool self (FunctionToolT n d f) = FunctionToolT n d f"
| "to_assistant_tool self (AssistantToolT k) = AssistantToolT k"
| "to_assistant_tool self (CallableT f) = tool_from_function f None None"

fun wrap_function_tool :: "'e tool \<Rightarrow> 'e tool" where
  "wrap_function_tool (FunctionToolT n d f) = FunctionToolT n d (PrefectTask f n d)"
| "wrap_function_tool t = t"

fun final_tools_loop :: "'e Agent \<Rightarrow> 'e tool list \<Rightarrow> 'e tool list \<Rightarrow> 'e tool list" where
  "final_tools_loop self [] final_tools = final_tools"
| "final_tools_loop self (tool # tools) final_tools =
     final_tools_loop self tools (final_tools @ [wrap_function_tool (to_assistant_tool self tool)])"

fun task_tools_loop :: "bool \<Rightarrow> (nat \<times> nat) list \<Rightarrow> 'e tool list \<Rightarrow> 'e tool list" where
  "task_tools_loop early_end_run [] tools = tools"
| "task_tools_loop early_end_run ((i, task) # rest) tools =
     task_tools_loop early_end_run rest
       (tools @ [create_complete_tool task i early_end_run, create_fail_tool task i early_end_run])"

definition early_end_run :: "'e Agent \<Rightarrow> bool" where
  "early_end_run self =
     (if \<not> system_access self \<and> length (agent_tasks self) = 1 then True else False)"

definition get_tools :: "'e Agent \<Rightarrow> 'e tool list" where
  "get_tools self =
     (let tools = flow_tools (agent_flow self) @ agent_tools self
                    @ assistant_tools (agent_assistant self);
          tools = (if agent_tasks self = [] then tools @ [CallableT end_run] else tools);
          tools = task_tools_loop (early_end_run self) (numbered_tasks self) tools;
          tools = (if user_access self then tools @ [CallableT talk_to_human] else tools)
      in final_tools_loop self tools [])"

subsection \<open>The instruction template and Agent.\_get\_instructions\<close>

text \<open>
  \<open>INSTRUCTIONS\<close> is a Jinja template. \<open>Environment.render\<close> is the template environment
  of marvin, which removes the newline after a block tag (\<open>trim_blocks\<close>); the tags of this
  template all start their line. The text between the tags is cut here into the pieces
  below, each with the line ends it has in the source; \<open>render_INSTRUCTIONS\<close> puts the
  pieces together as the tags direct.
\<close>

definition INSTRUCTIONS_intro :: string where
  "INSTRUCTIONS_intro =
     [nl]
     @ ''You are an AI assistant. Your job is to complete the tasks assigned to you.  You'' @ [nl]
     @ ''were created by a software application, and any messages you receive are from'' @ [nl]
     @ ''that software application, not a user. You may use any tools at your disposal to'' @ [nl]
     @ ''complete the task, including talking to a human user.'' @ [nl]
     @ [nl]
     @ [nl]
     @ ''## Instructions'' @ [nl]
     @ [nl]
     @ ''Follow these instructions at all times:'' @ [nl]
     @ [nl]"

definition INSTRUCTIONS_tasks_heading :: string where
  "INSTRUCTIONS_tasks_heading =
     [nl]
     @ [nl]
     @ ''## Tasks'' @ [nl]
     @ [nl]"

definition INSTRUCTIONS_assigned :: string where
  "INSTRUCTIONS_assigned =
     ''You have been assigned the following tasks. You will continue to run until all'' @ [nl]
     @ ''tasks are finished. It may take multiple attempts, iterations, or tool uses to'' @ [nl]
     @ ''complete a task. When a task is finished, mark it as `completed`'' @ [nl]
     @ ''(and provide a result, if required) or `failed` (with a brief explanation) by'' @ [nl]
     @ ''using the appropriate tool. Do not mark a task as complete if you don't have a'' @ [nl]
     @ ''complete result. Do not make up results. If you receive only partial or unclear'' @ [nl]
     @ ''information from a user, keep working until you have all the information you'' @ [nl]
     @ ''need. Be very sure that a task is truly unsolvable before marking it as failed,'' @ [nl]
     @ ''especially when working with a human user.'' @ [nl]
     @ [nl]
     @ [nl]"

definition INSTRUCTIONS_no_tasks :: string where
  "INSTRUCTIONS_no_tasks =
     ''You have no explicit tasks to complete. Follow your instructions as best as you'' @ [nl]
     @ ''can. If it is not possible to comply with the instructions in any way, use the'' @ [nl]
     @ ''`end_run` tool to manually stop the run.'' @ [nl]"

definition INSTRUCTIONS_communication :: string where
  "INSTRUCTIONS_communication =
     [nl]
     @ ''## Communication'' @ [nl]
     @ [nl]
     @ ''All messages you receive in the thread are generated by the software that'' @ [nl]
     @ ''created you, not a human user. All messages you send are sent only to that'' @ [nl]
     @ ''software and are never seen by any human.'' @ [nl]
     @ [nl]"

definition INSTRUCTIONS_system :: string where
  "INSTRUCTIONS_system =
     ''The software that created you is an AI capable of processing natural language,'' @ [nl]
     @ ''so you can freely respond by posting messages to the thread.'' @ [nl]"

definition INSTRUCTIONS_no_system :: string where
  "INSTRUCTIONS_no_system =
     ''The software that created you is a Python script that can only process'' @ [nl]
     @ ''structured responses produced by your tools. DO NOT POST ANY MESSAGES OR RESPONSES TO THE'' @ [nl]
     @ ''THREAD. They will be ignored and only waste time. ONLY USE TOOLS TO RESPOND.'' @ [nl]"

definition INSTRUCTIONS_user :: string where
  "INSTRUCTIONS_user =
     ''There is also a human user who may be involved in the task. You can communicate'' @ [nl]
     @ ''with them using the `talk_to_human` tool. The user is a human and unaware of'' @ [nl]
     @ ''your tasks or this system. Do not mention your tasks or anything about how the'' @ [nl]
     @ ''system works to them. They can only see messages you send them via tool, not the'' @ [nl]
     @ ''rest of the thread. When dealing with humans, you may not always get a clear or'' @ [nl]
     @ ''correct response. You may need to ask multiple times or rephrase your questions.'' @ [nl]
     @ ''You should also interpret human responses broadly and not be too literal.'' @ [nl]"

definition INSTRUCTIONS_no_user :: string where
  "INSTRUCTIONS_no_user =
     ''You can not communicate with a human user at this time.'' @ [nl]"

definition INSTRUCTIONS_context_heading :: string where
  "INSTRUCTIONS_context_heading =
     ''## Additional context'' @ [nl]
     @ [nl]
     @ ''The following context was provided:'' @ [nl]"

text \<open>
  The ambient context \<open>ctx\<close> (control\_flow/context.py, not among the sources): the
  module reads the keys \<open>flow\<close> and \<open>instructions\<close> from it.
\<close>

record 'e ctx =
  ctx_flow :: "'e AIFlow option"
  ctx_instructions :: "string list option"

definition nonempty_text :: "string option \<Rightarrow> bool" where
  "nonempty_text s = (case s of None \<Rightarrow> False | Some t \<Rightarrow> t \<noteq> [])"

definition bullet :: "string option \<Rightarrow> string" where
  "bullet s = (if nonempty_text s then ''- '' @ opt_str s @ [nl] else [])"

definition render_task :: "py_builtins \<Rightarrow> nat \<Rightarrow> AITask \<Rightarrow> string" where
  "render_task B task_id task =
     ''### Task '' @ str_nat task_id @ [nl]
     @ ''- Status: '' @ status_value (task_status task) @ [nl]
     @ ''- Objective: '' @ task_objective task @ [nl]
     @ (if nonempty_text (task_instructions task)
        then ''- Additional instructions: '' @ opt_str (task_instructions task) @ [nl] else [])
     @ (if status_value (task_status task) = ''completed''
        then ''- Result: '' @ py_str B (task_result task) @ [nl]
        else if status_value (task_status task) = ''failed''
        then ''- Error: '' @ opt_str (task_error task) @ [nl] else [])
     @ (case task_context task of
          None \<Rightarrow> []
        | Some c \<Rightarrow> if c \<noteq> [] then ''- Context: '' @ py_str B (PyDict c) @ [nl] else [])
     @ [nl]"

definition render_INSTRUCTIONS ::
  "py_builtins \<Rightarrow> 'e world \<Rightarrow> 'e Agent \<Rightarrow> 'e AIFlow \<Rightarrow> 'e assistant \<Rightarrow> string list
     \<Rightarrow> (string \<times> pyval) list \<Rightarrow> string" where
  "render_INSTRUCTIONS B w agent_arg flow_arg assistant_arg instructions_arg context_arg =
     INSTRUCTIONS_intro
     @ bullet (assistant_instructions assistant_arg)
     @ bullet (flow_instructions flow_arg)
     @ bullet (agent_instructions agent_arg)
     @ concat (map (\<lambda>instruction. ''- '' @ instruction @ [nl]) instructions_arg)
     @ INSTRUCTIONS_tasks_heading
     @ (if agent_tasks agent_arg \<noteq> []
        then INSTRUCTIONS_assigned
             @ concat (map (\<lambda>(task_id, task). render_task B task_id (task_store w task))
                         (numbered_tasks agent_arg))
        else INSTRUCTIONS_no_tasks)
     @ INSTRUCTIONS_communication
     @ (if system_access agent_arg then INSTRUCTIONS_system else INSTRUCTIONS_no_system)
     @ [nl]
     @ (if user_access agent_arg then INSTRUCTIONS_user else INSTRUCTIONS_no_user)
     @ [nl, nl]
     @ (if context_arg \<noteq> []
        then INSTRUCTIONS_context_heading
             @ concat (map (\<lambda>(k, v). ''- '' @ k @ '': '' @ py_str B v @ [nl]) context_arg)
        else [])"

text \<open>A dictionary keeps its keys in insertion order; \<open>{**a, **b}\<close> is \<open>dict_merge a b\<close>.\<close>

fun dict_set :: "(string \<times> pyval) list \<Rightarrow> string \<Rightarrow> pyval \<Rightarrow> (string \<times> pyval) list" where
  "dict_set [] k v = [(k, v)]"
| "dict_set ((k', v') # d) k v = (if k' = k then (k', v) # d else (k', v') # dict_set d k v)"

definition dict_merge :: "(string \<times> pyval) list \<Rightarrow> (string \<times> pyval) list \<Rightarrow> (string \<times> pyval) list" where
  "dict_merge a b = foldl (\<lambda>d (k, v). dict_set d k v) a b"

definition get_instructions ::
  "py_builtins \<Rightarrow> 'e ctx \<Rightarrow> 'e Agent \<Rightarrow> 'e world \<Rightarrow> (string \<times> pyval) list option \<Rightarrow> string" where
  "get_instructions B c self w context_arg =
     render_INSTRUCTIONS B w self (agent_flow self) (agent_assistant self)
       (case ctx_instructions c of None \<Rightarrow> [] | Some l \<Rightarrow> l)
       (dict_merge (agent_context self) (case context_arg of None \<Rightarrow> [] | Some d \<Rightarrow> d))"

subsection \<open>One model invocation and Agent.run\_async\<close>

text \<open>
  What the module needs from outside and does not define: the two settings it reads, the
  objects that \<open>AIFlow()\<close> and \<open>Assistant()\<close> construct, and the thread that
  \<open>TEMP_THREADS\<close> holds for an assistant.
\<close>

record 'e deps =
  max_agent_iterations :: int
  settings_assistant_model :: string
  new_AIFlow :: "'e AIFlow"
  new_Assistant :: "'e assistant"
  temp_thread :: "'e assistant \<Rightarrow> nat"

text \<open>
  The model service (marvin's \<open>Run\<close> and its \<open>run_async\<close>): it is given the assistant,
  the thread, the instructions, the tools and the model name, and may do anything to the
  world, in particular run tools that change task objects. It returns the messages and the
  steps of the run, as \<open>model_dump\<close> and \<open>model_dump_json\<close> give them.
\<close>

record 'e run_request =
  req_assistant :: "'e assistant"
  req_thread :: nat
  req_instructions :: string
  req_tools :: "'e tool list"
  req_model :: "string option"

record Run =
  run_messages :: "pyval list"
  run_messages_json :: "string list"
  run_steps :: "pyval list"

type_synonym 'e llm = "'e run_request \<Rightarrow> 'e world \<Rightarrow> Run \<times> 'e world"

text \<open>
  The keyword arguments \<open>run_kwargs\<close> of which the module reads the keys \<open>model\<close> and
  \<open>thread\<close>: a key may be absent (\<open>None\<close>); the model may be given as \<open>None\<close>.
  Other keys go to the model service as they are and are left out. Every call of the task
  gets the \<open>run_kwargs\<close> that \<open>run_async\<close> was given.

  \<open>execute_openai_run\<close> is the function that \<open>_get_openai_run_task\<close> returns. The model
  treats a call of it as complete when it returns (the source calls the task without
  \<open>await\<close>; in a synchronous flow Prefect runs an asynchronous task to its end before the
  call returns), and treats the model service as returning always: an exception of the
  service would leave \<open>run_async\<close> at the call, which has no handler.
\<close>

record run_kwargs =
  rk_model :: "string option option"
  rk_thread :: "nat option"

definition py_or :: "string option \<Rightarrow> string option \<Rightarrow> string option" where
  "py_or a b = (if nonempty_text a then a else b)"

definition execute_openai_run ::
  "'e deps \<Rightarrow> py_builtins \<Rightarrow> 'e ctx \<Rightarrow> 'e llm \<Rightarrow> 'e Agent \<Rightarrow> (string \<times> pyval) list option
     \<Rightarrow> run_kwargs \<Rightarrow> 'e world \<Rightarrow> Run \<times> 'e world" where
  "execute_openai_run D B c llm self context_arg rk w =
     (let model = (case rk_model rk of
                     Some m \<Rightarrow> m
                   | None \<Rightarrow> py_or (assistant_model (agent_assistant self))
                               (py_or (flow_model (agent_flow self)) (Some (settings_assistant_model D))));
          thread = (case rk_thread rk of Some t \<Rightarrow> t | None \<Rightarrow> flow_thread (agent_flow self));
          (run, w1) = llm \<lparr>req_assistant = agent_assistant self, req_thread = thread,
                            req_instructions = get_instructions B c self w context_arg,
                            req_tools = get_tools self, req_model = model\<rparr> w;
          w2 = create_json_artifact ''messages'' (PyList (run_messages run))
                 ''All messages sent and received during the run.'' w1;
          w3 = create_json_artifact ''actions'' (PyList (run_steps run))
                 ''All actions taken by the assistant during the run.'' w2
      in (run, w3))"

definition any_pending :: "'e Agent \<Rightarrow> 'e world \<Rightarrow> bool" where
  "any_pending self w = list_ex (\<lambda>t. task_status (task_store w t) = PENDING) (agent_tasks self)"

text \<open>
  The \<open>while\<close> loop of \<open>run_async\<close>. \<open>openai_run\<close> is the task that
  \<open>_get_openai_run_task\<close> returned. The source drops the value of each call; the model
  collects the values in \<open>runs\<close>, so that the calls can be counted.
\<close>

function while_pending ::
  "('e world \<Rightarrow> Run \<times> 'e world) \<Rightarrow> 'e Agent \<Rightarrow> int \<Rightarrow> int \<Rightarrow> 'e world \<Rightarrow> Run list
     \<Rightarrow> 'e world \<times> Run list" where
  "while_pending openai_run self cap counter w runs =
     (if any_pending self w \<and> counter < cap
      then while_pending openai_run self cap (counter + 1)
             (snd (openai_run w)) (runs @ [fst (openai_run w)])
      else (w, runs))"
  by pat_completeness auto
termination
  by (relation "measure (\<lambda>(openai_run, self, cap, counter, w, runs). nat (cap - counter))") auto

text \<open>The list comprehension that \<open>run_async\<close> returns.\<close>

definition completed_results :: "'e Agent \<Rightarrow> 'e world \<Rightarrow> pyval list" where
  "completed_results self w =
     map (\<lambda>t. task_result (task_store w t))
       (filter (\<lambda>t. task_status (task_store w t) = COMPLETED) (agent_tasks self))"

definition run_async ::
  "'e deps \<Rightarrow> py_builtins \<Rightarrow> 'e ctx \<Rightarrow> 'e llm \<Rightarrow> 'e Agent \<Rightarrow> (string \<times> pyval) list option
     \<Rightarrow> run_kwargs \<Rightarrow> 'e world \<Rightarrow> pyval list \<times> 'e world \<times> Run list" where
  "run_async D B c llm self context_arg rk w =
     (let openai_run = execute_openai_run D B c llm self context_arg rk;
          (run, w1) = openai_run w;
          (w2, runs) = (if \<not> system_access self
                        then while_pending openai_run self (max_agent_iterations D) 0 w1 [run]
                        else (w1, [run]));
          result = completed_results self w2
      in (result, w2, runs))"

subsection \<open>Calling a tool's function\<close>

text \<open>
  The text of \<open>TOOL_CALL_FUNCTION_RESULT_TEMPLATE\<close> after \<open>inspect.cleandoc\<close>, with the
  four fields that \<open>str.format\<close> fills in.
\<close>

definition TOOL_CALL_FUNCTION_RESULT_TEMPLATE :: "string \<Rightarrow> string \<Rightarrow> string \<Rightarrow> string \<Rightarrow> string" where
  "TOOL_CALL_FUNCTION_RESULT_TEMPLATE name description args result =
     ''## Tool call: '' @ name @ [nl]
     @ [nl]
     @ ''**Description:** '' @ description @ [nl]
     @ [nl]
     @ ''## Arguments'' @ [nl]
     @ [nl]
     @ ''```json'' @ [nl]
     @ args @ [nl]
     @ ''```'' @ [nl]
     @ [nl]
     @ ''### Result'' @ [nl]
     @ [nl]
     @ ''```json'' @ [nl]
     @ result @ [nl]
     @ ''```''"

text \<open>
  The signature of \<open>modified_fn\<close> is \<open>(*args, original_fn=..., tool=..., **kwargs)\<close>:
  \<open>original_fn\<close> and \<open>tool\<close> are keyword-only parameters, so a keyword argument of
  either name is bound to the parameter and does not reach \<open>kwargs\<close>.
\<close>

definition modified_fn_kwargs :: "(string \<times> pyval) list \<Rightarrow> (string \<times> pyval) list" where
  "modified_fn_kwargs kwargs = filter (\<lambda>(k, v). k \<noteq> ''original_fn'' \<and> k \<noteq> ''tool'') kwargs"

definition modified_fn_arguments :: "pyval list \<Rightarrow> (string \<times> pyval) list \<Rightarrow> (string \<times> pyval) list" where
  "modified_fn_arguments args kwargs =
     (if args = [] then [] else [(''args'', PyList args)])
     @ (case map_of kwargs ''original_fn'' of None \<Rightarrow> [] | Some v \<Rightarrow> [(''original_fn'', v)])
     @ (case map_of kwargs ''tool'' of None \<Rightarrow> [] | Some v \<Rightarrow> [(''tool'', v)])
     @ (if modified_fn_kwargs kwargs = [] then [] else [(''kwargs'', PyDict (modified_fn_kwargs kwargs))])"

text \<open>
  Modelled from the spec: the functions behind the complete tool and the fail tool
  (control\_flow/task.py) are not among the sources. By section 4.1 of the specification the
  complete tool accepts a result, fails with \<open>ValidationError\<close> if the value cannot be
  coerced to the result type, and otherwise sets the status COMPLETED and the coerced
  result; the fail tool sets the status FAILED and the error message; with \<open>end_run\<close> true
  either then raises the signal that ends the run.
\<close>

definition complete_params :: "AITask \<Rightarrow> py_params" where
  "complete_params task = (case task_cast task of None \<Rightarrow> [] | Some cast \<Rightarrow> [(''result'', None)])"

definition mark_completed :: "nat \<Rightarrow> pyval \<Rightarrow> bool \<Rightarrow> 'e world \<Rightarrow> pyval raises \<times> 'e world" where
  "mark_completed ref v end_run_flag w =
     (if end_run_flag then Inl EndRunSignal else Inr PyNone,
      w\<lparr>task_store := (task_store w)
           (ref := (task_store w ref)\<lparr>task_status := COMPLETED, task_result := v\<rparr>)\<rparr>)"

definition mark_failed :: "nat \<Rightarrow> string \<Rightarrow> bool \<Rightarrow> 'e world \<Rightarrow> pyval raises \<times> 'e world" where
  "mark_failed ref message end_run_flag w =
     (if end_run_flag then Inl EndRunSignal else Inr PyNone,
      w\<lparr>task_store := (task_store w)
           (ref := (task_store w ref)\<lparr>task_status := FAILED, task_error := Some message\<rparr>)\<rparr>)"

text \<open>
  \<open>fn_bind w f args kwargs\<close> is \<open>inspect.signature(f).bind(*args, **kwargs).arguments\<close>.
\<close>

fun fn_bind ::
  "'e world \<Rightarrow> 'e python_fn \<Rightarrow> pyval list \<Rightarrow> (string \<times> pyval) list \<Rightarrow> (string \<times> pyval) list raises" where
  "fn_bind w (PyDef n d ps body) args kwargs = signature_bind ps args kwargs"
| "fn_bind w (CompleteTask ref task_id e) args kwargs =
     signature_bind (complete_params (task_store w ref)) args kwargs"
| "fn_bind w (FailTask ref task_id e) args kwargs = signature_bind [(''message'', None)] args kwargs"
| "fn_bind w (SubAgentRun a) args kwargs =
     signature_bind [(''message'', None), (''context'', Some PyNone)] args kwargs"
| "fn_bind w (PrefectTask f n d) args kwargs = Inr (modified_fn_arguments args kwargs)"

text \<open>
  Calling a function with positional and keyword arguments, in a world; \<open>self\<close> is the
  agent whose \<open>_get_tools\<close> built the tool (the closure \<open>_run\<close> of a sub-agent runs the
  copy of that agent). The last equation is \<open>modified_fn\<close>: a keyword \<open>original_fn\<close>
  replaces the function to call by a value that is not callable; a keyword \<open>tool\<close>
  replaces the tool by a value without the attribute \<open>function\<close>, which the body reads
  when it formats the artifact. An \<open>async\<close> function is taken to be awaited by its
  caller.
\<close>

fun call_python_fn ::
  "'e deps \<Rightarrow> py_builtins \<Rightarrow> 'e ctx \<Rightarrow> 'e llm \<Rightarrow> 'e Agent \<Rightarrow> 'e python_fn \<Rightarrow> pyval list
     \<Rightarrow> (string \<times> pyval) list \<Rightarrow> 'e world \<Rightarrow> pyval raises \<times> 'e world" where
  "call_python_fn D B c llm self (PyDef n d ps body) args kwargs w =
     (case signature_bind ps args kwargs of
        Inl e \<Rightarrow> (Inl e, w)
      | Inr bound \<Rightarrow> body (apply_defaults ps bound) w)"
| "call_python_fn D B c llm self (CompleteTask ref task_id e) args kwargs w =
     (case signature_bind (complete_params (task_store w ref)) args kwargs of
        Inl err \<Rightarrow> (Inl err, w)
      | Inr bound \<Rightarrow>
          (case task_cast (task_store w ref) of
             None \<Rightarrow> mark_completed ref PyNone e w
           | Some cast \<Rightarrow>
               (case cast (arg bound ''result'') of
                  None \<Rightarrow> (Inl ValidationError, w)
                | Some v \<Rightarrow> mark_completed ref v e w)))"
| "call_python_fn D B c llm self (FailTask ref task_id e) args kwargs w =
     (case signature_bind [(''message'', None)] args kwargs of
        Inl err \<Rightarrow> (Inl err, w)
      | Inr bound \<Rightarrow>
          (case arg bound ''message'' of
             PyStr message \<Rightarrow> mark_failed ref message e w
           | _ \<Rightarrow> (Inl ValidationError, w)))"
| "call_python_fn D B c llm self (SubAgentRun a) args kwargs w =
     (case signature_bind [(''message'', None), (''context'', Some PyNone)] args kwargs of
        Inl err \<Rightarrow> (Inl err, w)
      | Inr bound \<Rightarrow>
          (case arg (apply_defaults [(''message'', None), (''context'', Some PyNone)] bound) ''context'' of
             PyDict d \<Rightarrow>
               (let (run, w1) = execute_openai_run D B c llm (self\<lparr>agent_assistant := a\<rparr>) (Some d)
                                  \<lparr>rk_model = None, rk_thread = Some (temp_thread D a)\<rparr> w
                in (Inr (PyList (map PyStr (run_messages_json run))), w1))
           | other \<Rightarrow>
               if truthy other then (Inl TypeError, w)
               else (let (run, w1) = execute_openai_run D B c llm (self\<lparr>agent_assistant := a\<rparr>) None
                                       \<lparr>rk_model = None, rk_thread = Some (temp_thread D a)\<rparr> w
                     in (Inr (PyList (map PyStr (run_messages_json run))), w1))))"
| "call_python_fn D B c llm self (PrefectTask original_fn tool_name tool_description) args kwargs w =
     (case map_of kwargs ''original_fn'' of
        Some v \<Rightarrow> (Inl TypeError, w)
      | None \<Rightarrow>
          (case call_python_fn D B c llm self original_fn args (modified_fn_kwargs kwargs) w of
             (Inl e, w1) \<Rightarrow> (Inl e, w1)
           | (Inr result, w1) \<Rightarrow>
               (case fn_bind w1 original_fn args (modified_fn_kwargs kwargs) of
                  Inl e \<Rightarrow> (Inl e, w1)
                | Inr passed \<Rightarrow>
                    (let passed_args = (case json_dumps B (PyDict passed) of
                                          Some text \<Rightarrow> text
                                        | None \<Rightarrow> py_str B (PyDict passed))
                     in case map_of kwargs ''tool'' of
                          Some v \<Rightarrow> (Inl AttributeError, w1)
                        | None \<Rightarrow>
                            (Inr result,
                             create_markdown_artifact
                               (TOOL_CALL_FUNCTION_RESULT_TEMPLATE tool_name
                                  (if nonempty_text tool_description then opt_str tool_description
                                   else ''(none provided)'')
                                  passed_args (py_str B result))
                               ''result'' w1)))))"

subsection \<open>Constructing an agent\<close>

text \<open>
  The keyword arguments of \<open>Agent(...)\<close>; \<open>None\<close> is an argument left out (for the
  fields with a validator, also one given as \<open>None\<close>). The four validators run before
  the field is set.
\<close>

record 'e agent_args =
  arg_tasks :: "nat list option"
  arg_flow :: "'e AIFlow option"
  arg_assistant :: "'e assistant option"
  arg_tools :: "'e tool list option"
  arg_context :: "(string \<times> pyval) list option"
  arg_user_access :: "bool option"
  arg_system_access :: "bool option"
  arg_instructions :: "string option"

definition load_flow_from_ctx :: "'e deps \<Rightarrow> 'e ctx \<Rightarrow> 'e AIFlow option \<Rightarrow> 'e AIFlow" where
  "load_flow_from_ctx D c v =
     (case v of
        Some f \<Rightarrow> f
      | None \<Rightarrow> (case ctx_flow c of Some f \<Rightarrow> f | None \<Rightarrow> new_AIFlow D))"

definition default_context :: "(string \<times> pyval) list option \<Rightarrow> (string \<times> pyval) list" where
  "default_context v = (case v of None \<Rightarrow> [] | Some d \<Rightarrow> d)"

definition default_assistant :: "'e deps \<Rightarrow> 'e ctx \<Rightarrow> 'e assistant option \<Rightarrow> 'e assistant" where
  "default_assistant D c v =
     (case v of
        Some a \<Rightarrow> a
      | None \<Rightarrow>
          (case ctx_flow c of
             Some f \<Rightarrow> (case flow_assistant f of Some a \<Rightarrow> a | None \<Rightarrow> new_Assistant D)
           | None \<Rightarrow> new_Assistant D))"

definition default_access :: "bool option \<Rightarrow> bool" where
  "default_access v = (case v of None \<Rightarrow> False | Some b \<Rightarrow> b)"

definition new_Agent :: "'e deps \<Rightarrow> 'e ctx \<Rightarrow> 'e agent_args \<Rightarrow> 'e Agent" where
  "new_Agent D c a =
     \<lparr>agent_tasks = (case arg_tasks a of None \<Rightarrow> [] | Some ts \<Rightarrow> ts),
      agent_flow = load_flow_from_ctx D c (arg_flow a),
      agent_assistant = default_assistant D c (arg_assistant a),
      agent_tools = (case arg_tools a of None \<Rightarrow> [] | Some ts \<Rightarrow> ts),
      agent_context = default_context (arg_context a),
      user_access = default_access (arg_user_access a),
      system_access = default_access (arg_system_access a),
      agent_instructions = arg_instructions a\<rparr>"

subsection \<open>run\_agent\<close>






text \<open>
  The world after \<open>k\<close> model invocations of the agent, each started in the world the
  one before left.
\<close>

definition world_after_turns ::
  "'e deps \<Rightarrow> py_builtins \<Rightarrow> 'e ctx \<Rightarrow> 'e llm \<Rightarrow> 'e Agent \<Rightarrow> (string \<times> pyval) list option
     \<Rightarrow> run_kwargs \<Rightarrow> nat \<Rightarrow> 'e world \<Rightarrow> 'e world" where
  "world_after_turns D B c llm self context_arg rk k w =
     ((\<lambda>w'. snd (execute_openai_run D B c llm self context_arg rk w')) ^^ k) w"


text \<open>
  The tools an agent is given from outside, in the order \<open>_get_tools\<close> concatenates them,
  and what the last loop makes of one tool.
\<close>

definition supplied_tools :: "'e Agent \<Rightarrow> 'e tool list" where
  "supplied_tools self =
     flow_tools (agent_flow self) @ agent_tools self @ assistant_tools (agent_assistant self)"

definition final_tool :: "'e Agent \<Rightarrow> 'e tool \<Rightarrow> 'e tool" where
  "final_tool self t = wrap_function_tool (to_assistant_tool self t)"

definition end_run_tool :: "'e tool" where
  "end_run_tool = wrap_function_tool (tool_from_function end_run None None)"

definition talk_to_human_tool :: "'e tool" where
  "talk_to_human_tool = wrap_function_tool (tool_from_function talk_to_human None None)"

definition complete_tool :: "nat \<Rightarrow> nat \<Rightarrow> bool \<Rightarrow> 'e tool" where
  "complete_tool task task_id end_run_flag =
     wrap_function_tool (create_complete_tool task task_id end_run_flag)"

definition fail_tool :: "nat \<Rightarrow> nat \<Rightarrow> bool \<Rightarrow> 'e tool" where
  "fail_tool task task_id end_run_flag =
     wrap_function_tool (create_fail_tool task task_id end_run_flag)"

text \<open>
  The tool list as section 4.2 of the specification words it (\<open>build_tools\<close>): flow tools
  + agent tools + assistant tools + (if no tasks) an end-run tool + per-task complete/fail
  tool pairs + (if \<open>user_access\<close>) a human-talk tool, with \<open>early_end_run\<close> true iff
  \<open>system_access\<close> is false and exactly one task is present.
\<close>

definition build_tools :: "'e Agent \<Rightarrow> 'e tool list" where
  "build_tools self =
     map (final_tool self) (supplied_tools self)
     @ (if agent_tasks self = [] then [end_run_tool] else [])
     @ concat (map (\<lambda>(task_id, task).
                 [complete_tool task task_id
                    (\<not> system_access self \<and> length (agent_tasks self) = 1),
                  fail_tool task task_id
                    (\<not> system_access self \<and> length (agent_tasks self) = 1)])
               (numbered_tasks self))
     @ (if user_access self then [talk_to_human_tool] else [])"

section \<open>Example inputs\<close>

definition example_assistant :: "unit assistant" where
  "example_assistant = Assistant ''Assistant'' None [] None"

definition example_flow :: "unit AIFlow" where
  "example_flow =
     \<lparr>flow_tools = [], flow_instructions = None, flow_model = None, flow_thread = 0,
      flow_assistant = None\<rparr>"

text \<open>An agent with the task object 0 and no access flag set.\<close>

definition one_task_agent :: "unit Agent" where
  "one_task_agent =
     \<lparr>agent_tasks = [0], agent_flow = example_flow, agent_assistant = example_assistant,
      agent_tools = [], agent_context = [], user_access = False, system_access = False,
      agent_instructions = None\<rparr>"

text \<open>
  The same agent, given the module's functions \<open>end_run\<close> and \<open>talk_to_human\<close> as tools
  of its own: \<open>Agent(tasks=[t], tools=[end_run, talk_to_human])\<close>.
\<close>

definition own_tools_agent :: "unit Agent" where
  "own_tools_agent = one_task_agent\<lparr>agent_tools := [CallableT end_run, CallableT talk_to_human]\<rparr>"

text \<open>An agent without tasks, and an agent that talks to the system.\<close>

definition no_task_agent :: "unit Agent" where
  "no_task_agent = one_task_agent\<lparr>agent_tasks := []\<rparr>"

definition system_agent :: "unit Agent" where
  "system_agent = one_task_agent\<lparr>system_access := True\<rparr>"

definition example_str :: "pyval \<Rightarrow> string" where
  "example_str v =
     (case v of
        PyNone \<Rightarrow> ''None''
      | PyBool b \<Rightarrow> (if b then ''True'' else ''False'')
      | PyInt i \<Rightarrow> (if 0 \<le> i then str_nat (nat i) else ''-'' @ str_nat (nat (- i)))
      | PyStr t \<Rightarrow> t
      | PyList xs \<Rightarrow> ''[...]''
      | PyDict kvs \<Rightarrow> ''{...}''
      | PyObject r \<Rightarrow> r)"

definition example_builtins :: py_builtins where
  "example_builtins = \<lparr>py_str = example_str, json_dumps = (\<lambda>v. Some (example_str v))\<rparr>"

definition example_deps :: "unit deps" where
  "example_deps =
     \<lparr>max_agent_iterations = 3, settings_assistant_model = ''gpt-4'',
      new_AIFlow = example_flow, new_Assistant = example_assistant,
      temp_thread = (\<lambda>a. 1)\<rparr>"

definition empty_ctx :: "unit ctx" where
  "empty_ctx = \<lparr>ctx_flow = None, ctx_instructions = None\<rparr>"

definition no_run_kwargs :: run_kwargs where
  "no_run_kwargs = \<lparr>rk_model = None, rk_thread = None\<rparr>"

definition cast_int :: "pyval \<Rightarrow> pyval option" where
  "cast_int v = (case v of PyInt i \<Rightarrow> Some v | _ \<Rightarrow> None)"

definition sum_task :: AITask where
  "sum_task =
     \<lparr>task_objective = ''sum 2 and 3'', task_status = PENDING, task_result = PyNone,
      task_error = None, task_context = None, task_instructions = None,
      task_cast = Some cast_int\<rparr>"

definition example_world :: "unit world" where
  "example_world =
     \<lparr>task_store = (\<lambda>r. sum_task), next_task = 1, artifacts = [], console_out = [],
      console_in = [], backend = ()\<rparr>"

definition empty_run :: Run where
  "empty_run = \<lparr>run_messages = [], run_messages_json = [], run_steps = []\<rparr>"

text \<open>A model that does nothing, and a model that completes task object 0 with 5.\<close>

definition idle_llm :: "unit llm" where
  "idle_llm req w = (empty_run, w)"

definition completing_llm :: "unit llm" where
  "completing_llm req w =
     (empty_run,
      w\<lparr>task_store := (task_store w)
           (0 := (task_store w 0)\<lparr>task_status := COMPLETED, task_result := PyInt 5\<rparr>)\<rparr>)"

text \<open>
  An ambient context with one ad hoc instruction, and a world that differs from
  \<open>example_world\<close> in a task object the agents above do not hold and in the terminal.
\<close>

definition french_ctx :: "unit ctx" where
  "french_ctx = \<lparr>ctx_flow = None, ctx_instructions = Some [''Reply in French.'']\<rparr>"

definition other_world :: "unit world" where
  "other_world =
     example_world\<lparr>task_store := (task_store example_world)
                      (7 := sum_task\<lparr>task_status := FAILED, task_error := Some ''no''\<rparr>),
                   console_in := [''hello'']\<rparr>"

text \<open>
  A tool function with a parameter named \<open>tool\<close>, as in
  \<open>def install(tool): return tool\<close>, and an agent that is given it.
\<close>

definition install_tool :: "unit python_fn" where
  "install_tool =
     PyDef ''install'' (Some ''Install a tool.'') [(''tool'', None)]
       (\<lambda>bound w. (Inr (arg bound ''tool''), w))"

definition install_agent :: "unit Agent" where
  "install_agent = one_task_agent\<lparr>agent_tools := [CallableT install_tool]\<rparr>"


definition no_agent_args :: "unit agent_args" where
  "no_agent_args =
     \<lparr>arg_tasks = None, arg_flow = None, arg_assistant = None, arg_tools = None,
      arg_context = None, arg_user_access = None, arg_system_access = None,
      arg_instructions = None\<rparr>"


text \<open>
  An ambient context whose flow has the function \<open>talk_to_human\<close> among its tools:
  \<open>Agent()\<close> constructed inside \<open>AIFlow(tools=[talk_to_human])\<close>.
\<close>

definition human_flow_ctx :: "unit ctx" where
  "human_flow_ctx =
     \<lparr>ctx_flow = Some (example_flow\<lparr>flow_tools := [CallableT talk_to_human]\<rparr>),
      ctx_instructions = None\<rparr>"

section \<open>Theorems\<close>

subsection \<open>The tool list\<close>

lemma final_tools_loop_map:
  "final_tools_loop self tools acc = acc @ map (final_tool self) tools"
  by (induction tools arbitrary: acc) (simp_all add: final_tool_def)

lemma task_tools_loop_concat:
  "task_tools_loop e nts tools =
     tools @ concat (map (\<lambda>(i, task). [create_complete_tool task i e, create_fail_tool task i e]) nts)"
  by (induction e nts tools rule: task_tools_loop.induct) simp_all

lemma final_tool_created:
  "final_tool self (create_complete_tool t i e) = complete_tool t i e"
  "final_tool self (create_fail_tool t i e) = fail_tool t i e"
  "final_tool self (CallableT end_run) = end_run_tool"
  "final_tool self (CallableT talk_to_human) = talk_to_human_tool"
  by (simp_all add: final_tool_def create_complete_tool_def create_fail_tool_def
      tool_from_function_def complete_tool_def fail_tool_def end_run_tool_def
      talk_to_human_tool_def)

lemma map_final_task_tools:
  "map (final_tool self)
     (concat (map (\<lambda>(i, task). [create_complete_tool task i e, create_fail_tool task i e]) nts))
   = concat (map (\<lambda>(i, task). [complete_tool task i e, fail_tool task i e]) nts)"
  by (induction nts) (auto simp: final_tool_created)

lemma get_tools_eq_build_tools: "get_tools self = build_tools self"
  by (simp add: get_tools_def build_tools_def Let_def final_tools_loop_map
      task_tools_loop_concat supplied_tools_def early_end_run_def map_final_task_tools
      final_tool_created)

lemma numbered_tasks_nth:
  "k < length (agent_tasks self) \<Longrightarrow> numbered_tasks self ! k = (k + 1, agent_tasks self ! k)"
  by (simp add: numbered_tasks_def nth_enumerate_eq)

lemma length_numbered_tasks: "length (numbered_tasks self) = length (agent_tasks self)"
  by (simp add: numbered_tasks_def)

lemma concat_pairs_nth:
  "k < length xs \<Longrightarrow>
     concat (map (\<lambda>x. [f x, g x]) xs) ! (2 * k) = f (xs ! k)
   \<and> concat (map (\<lambda>x. [f x, g x]) xs) ! (2 * k + 1) = g (xs ! k)"
proof (induction xs arbitrary: k)
  case Nil
  then show ?case by simp
next
  case (Cons x xs)
  show ?case
  proof (cases k)
    case 0
    then show ?thesis by simp
  next
    case (Suc j)
    with Cons.prems have "j < length xs" by simp
    from Cons.IH [OF this] Suc show ?thesis by simp
  qed
qed

text \<open>
  C3. The complete tool and the fail tool that \<open>_get_tools\<close> creates for the task at
  position \<open>k\<close> of the task list (task id \<open>k + 1\<close>) stand right after the supplied tools,
  and both are created with \<open>end_run\<close> true if and only if \<open>system_access\<close> is false and the
  agent has exactly one task; in every other case the flag is false.
\<close>

theorem task_tools_end_run_flag:
  fixes self :: "'e Agent"
  assumes "k < length (agent_tasks self)"
  shows "get_tools self ! (length (supplied_tools self) + 2 * k)
           = complete_tool (agent_tasks self ! k) (k + 1)
               (\<not> system_access self \<and> length (agent_tasks self) = 1)
       \<and> get_tools self ! (length (supplied_tools self) + 2 * k + 1)
           = fail_tool (agent_tasks self ! k) (k + 1)
               (\<not> system_access self \<and> length (agent_tasks self) = 1)"
proof -
  let ?b = "\<not> system_access self \<and> length (agent_tasks self) = 1"
  let ?pairs = "concat (map (\<lambda>(task_id, task).
                   [complete_tool task task_id ?b, fail_tool task task_id ?b])
                   (numbered_tasks self)) :: 'e tool list"
  define F where "F = (\<lambda>x :: nat \<times> nat. (complete_tool (snd x) (fst x) ?b :: 'e tool))"
  define G where "G = (\<lambda>x :: nat \<times> nat. (fail_tool (snd x) (fst x) ?b :: 'e tool))"
  from assms have nonempty: "agent_tasks self \<noteq> []" by auto
  have len: "2 * k + 1 < length ?pairs"
    using assms by (simp add: length_concat comp_def split_def length_numbered_tasks sum_list_triv)
  have k': "k < length (numbered_tasks self)"
    using assms by (simp add: length_numbered_tasks)
  have "concat (map (\<lambda>x. [F x, G x]) (numbered_tasks self)) ! (2 * k) = F (numbered_tasks self ! k)
      \<and> concat (map (\<lambda>x. [F x, G x]) (numbered_tasks self)) ! (2 * k + 1) = G (numbered_tasks self ! k)"
    by (rule concat_pairs_nth [OF k'])
  then have nth: "?pairs ! (2 * k) = complete_tool (agent_tasks self ! k) (k + 1) ?b
           \<and> ?pairs ! (2 * k + 1) = fail_tool (agent_tasks self ! k) (k + 1) ?b"
    unfolding numbered_tasks_nth [OF assms] by (simp add: F_def G_def split_def)
  have "get_tools self = map (final_tool self) (supplied_tools self) @ ?pairs
          @ (if user_access self then [talk_to_human_tool] else [])"
    using nonempty by (simp add: get_tools_eq_build_tools build_tools_def)
  then show ?thesis using nth len by (simp add: nth_append)
qed

text \<open>
  Witness for C3: the agent with one task and \<open>system_access\<close> false gets its two task
  tools with \<open>end_run\<close> true.
\<close>

theorem task_tools_end_run_flag_witness:
  "get_tools one_task_agent ! 0 = complete_tool 0 1 True
   \<and> get_tools one_task_agent ! 1 = fail_tool 0 1 True"
  using task_tools_end_run_flag [of 0 one_task_agent]
  by (simp add: one_task_agent_def supplied_tools_def example_flow_def example_assistant_def)

text \<open>
  C5, as amended. The list that \<open>_get_tools\<close> returns is, in this order: the flow tools,
  the agent tools and the assistant tools (each made a tool, function tools wrapped); the
  \<open>end_run\<close> tool if and only if the agent has no task; one complete tool and one fail tool
  for each task, in task order; the \<open>talk_to_human\<close> tool if and only if \<open>user_access\<close> is
  true. Nothing else is in the list.
\<close>

theorem get_tools_assembly:
  "get_tools self =
     map (final_tool self) (flow_tools (agent_flow self))
     @ map (final_tool self) (agent_tools self)
     @ map (final_tool self) (assistant_tools (agent_assistant self))
     @ (if agent_tasks self = [] then [end_run_tool] else [])
     @ concat (map (\<lambda>(task_id, task).
                 [complete_tool task task_id (early_end_run self),
                  fail_tool task task_id (early_end_run self)])
               (numbered_tasks self))
     @ (if user_access self then [talk_to_human_tool] else [])"
  by (simp add: get_tools_eq_build_tools build_tools_def supplied_tools_def early_end_run_def)

text \<open>
  C5 as stated fails: an agent that has a task and no user access, and that was given the
  functions \<open>end_run\<close> and \<open>talk_to_human\<close> among its own tools, has both tools in its
  list.
\<close>

theorem supplied_end_run_counterexample:
  "end_run_tool \<in> set (get_tools own_tools_agent) \<and> agent_tasks own_tools_agent \<noteq> []
   \<and> talk_to_human_tool \<in> set (get_tools own_tools_agent) \<and> \<not> user_access own_tools_agent"
  by (simp add: get_tools_eq_build_tools build_tools_def own_tools_agent_def one_task_agent_def
      supplied_tools_def example_flow_def example_assistant_def final_tool_created)

subsection \<open>The run loop\<close>

declare while_pending.simps [simp del]

lemma while_pending_exhausts:
  assumes step: "\<And>w'. snd (openai_run w') = step w'"
    and "\<forall>k < nat (cap - counter). any_pending self ((step ^^ k) w)"
  shows "fst (while_pending openai_run self cap counter w runs) = (step ^^ nat (cap - counter)) w
       \<and> length (snd (while_pending openai_run self cap counter w runs))
           = length runs + nat (cap - counter)"
  using assms(2)
proof (induction "nat (cap - counter)" arbitrary: counter w runs)
  case 0
  then have "\<not> counter < cap" by simp
  then show ?case using 0 by (simp add: while_pending.simps)
next
  case (Suc n)
  then have lt: "counter < cap" and n: "n = nat (cap - (counter + 1))" by linarith+
  have "0 < nat (cap - counter)" using lt by simp
  with Suc.prems have "any_pending self ((step ^^ 0) w)" by blast
  then have p0: "any_pending self w" by simp
  have "\<forall>k < nat (cap - (counter + 1)). any_pending self ((step ^^ k) (step w))"
  proof (intro allI impI)
    fix k assume "k < nat (cap - (counter + 1))"
    then have "Suc k < nat (cap - counter)" using n Suc.hyps(2) by linarith
    with Suc.prems have "any_pending self ((step ^^ Suc k) w)" by blast
    then show "any_pending self ((step ^^ k) (step w))"
      by (simp add: funpow_swap1)
  qed
  from Suc.hyps(1) [OF n this, of "runs @ [fst (openai_run w)]"]
  have IH: "fst (while_pending openai_run self cap (counter + 1) (step w) (runs @ [fst (openai_run w)]))
              = (step ^^ n) (step w)
          \<and> length (snd (while_pending openai_run self cap (counter + 1) (step w)
                (runs @ [fst (openai_run w)]))) = Suc (length runs) + n"
    using n by simp
  have unfold: "while_pending openai_run self cap counter w runs
      = while_pending openai_run self cap (counter + 1) (step w) (runs @ [fst (openai_run w)])"
    using lt p0 by (subst while_pending.simps) (simp add: step)
  show ?case
    unfolding unfold using IH Suc.hyps(2) [symmetric] by (simp add: funpow_swap1)
qed

lemma all_pending_any_pending:
  "agent_tasks self \<noteq> [] \<Longrightarrow> \<forall>t \<in> set (agent_tasks self). task_status (task_store w t) = PENDING
     \<Longrightarrow> any_pending self w"
  by (cases "agent_tasks self") (auto simp: any_pending_def)

lemma all_pending_no_results:
  "\<forall>t \<in> set (agent_tasks self). task_status (task_store w t) = PENDING
     \<Longrightarrow> completed_results self w = []"
  by (simp add: completed_results_def filter_empty_conv)

lemma idle_llm_keeps_tasks:
  "task_store (world_after_turns D B c idle_llm self context_arg rk k w) = task_store w"
  by (induction k)
     (simp_all add: world_after_turns_def execute_openai_run_def idle_llm_def Let_def
        create_json_artifact_def)

text \<open>
  C1, as amended. For an agent with \<open>system_access\<close> false that has at least one task and
  whose tasks are all PENDING after every model invocation, \<open>run_async\<close> performs exactly
  1 + \<open>max_agent_iterations\<close> model invocations (a negative setting counts as 0) and
  returns the empty list.
\<close>

theorem run_async_budget_exhausted:
  assumes no_system: "\<not> system_access self"
    and has_task: "agent_tasks self \<noteq> []"
    and pending: "\<forall>k \<in> {1 .. 1 + nat (max_agent_iterations D)}.
            \<forall>t \<in> set (agent_tasks self).
              task_status (task_store (world_after_turns D B c llm self context_arg rk k w) t) = PENDING"
  shows "fst (run_async D B c llm self context_arg rk w) = []
       \<and> length (snd (snd (run_async D B c llm self context_arg rk w)))
           = 1 + nat (max_agent_iterations D)"
proof -
  define run where "run = execute_openai_run D B c llm self context_arg rk"
  define step where "step = (\<lambda>w'. snd (run w'))"
  define cap where "cap = max_agent_iterations D"
  have after: "\<And>k. world_after_turns D B c llm self context_arg rk k w = (step ^^ k) w"
    by (simp add: world_after_turns_def step_def run_def)
  have step: "\<And>w'. snd (run w') = step w'" by (simp add: step_def)
  have loop_pending: "\<forall>k < nat (cap - 0). any_pending self ((step ^^ k) (step w))"
  proof (intro allI impI)
    fix k assume "k < nat (cap - 0)"
    then have "Suc k \<in> {1 .. 1 + nat (max_agent_iterations D)}" by (simp add: cap_def)
    with pending have "\<forall>t \<in> set (agent_tasks self).
        task_status (task_store ((step ^^ Suc k) w) t) = PENDING"
      unfolding after by blast
    then have "any_pending self ((step ^^ Suc k) w)"
      by (rule all_pending_any_pending [OF has_task])
    then show "any_pending self ((step ^^ k) (step w))" by (simp add: funpow_swap1)
  qed
  note loop = while_pending_exhausts [OF step loop_pending, of "[fst (run w)]"]
  have "fst (while_pending run self cap 0 (step w) [fst (run w)]) = (step ^^ nat cap) (step w)"
    using loop by simp
  then have final: "fst (while_pending run self cap 0 (step w) [fst (run w)])
                 = (step ^^ (1 + nat cap)) w"
    by (simp add: funpow_swap1)
  have len: "length (snd (while_pending run self cap 0 (step w) [fst (run w)])) = 1 + nat cap"
    using loop by simp
  have "1 + nat cap \<in> {1 .. 1 + nat (max_agent_iterations D)}" by (simp add: cap_def)
  with pending have "\<forall>t \<in> set (agent_tasks self).
      task_status (task_store ((step ^^ (1 + nat cap)) w) t) = PENDING"
    unfolding after by blast
  then have none: "completed_results self ((step ^^ (1 + nat cap)) w) = []"
    by (rule all_pending_no_results)
  have "run_async D B c llm self context_arg rk w
          = (completed_results self (fst (while_pending run self cap 0 (step w) [fst (run w)])),
             while_pending run self cap 0 (step w) [fst (run w)])"
    using no_system by (simp add: run_async_def Let_def split_def run_def step_def cap_def)
  then show ?thesis
    using final none len by (simp add: cap_def)
qed

text \<open>
  Witness for C1: one task that the model never resolves, \<open>max_agent_iterations = 3\<close>:
  four invocations, result \<open>[]\<close>.
\<close>

theorem run_async_budget_exhausted_witness:
  "fst (run_async example_deps example_builtins empty_ctx idle_llm one_task_agent None
          no_run_kwargs example_world) = []
   \<and> length (snd (snd (run_async example_deps example_builtins empty_ctx idle_llm
          one_task_agent None no_run_kwargs example_world))) = 4"
  using run_async_budget_exhausted [of one_task_agent example_deps example_builtins empty_ctx
      idle_llm None no_run_kwargs example_world]
  by (simp add: idle_llm_keeps_tasks one_task_agent_def example_deps_def example_world_def
      sum_task_def)

text \<open>
  C1 as stated fails for an agent without tasks: all of its tasks are PENDING after every
  invocation (it has none), \<open>system_access\<close> is false and \<open>max_agent_iterations\<close> is 3,
  and \<open>run_async\<close> performs one model invocation, not four.
\<close>

theorem no_task_agent_one_turn_counterexample:
  "agent_tasks no_task_agent = [] \<and> \<not> system_access no_task_agent
   \<and> max_agent_iterations example_deps = 3
   \<and> length (snd (snd (run_async example_deps example_builtins empty_ctx idle_llm
          no_task_agent None no_run_kwargs example_world))) = 1"
  by (simp add: run_async_def Let_def split_def while_pending.simps any_pending_def
      no_task_agent_def one_task_agent_def example_deps_def)

text \<open>
  C4. For an agent with \<open>system_access\<close> true, \<open>run_async\<close> performs exactly one model
  invocation, the one at its entry, whatever the statuses of the tasks and whatever
  \<open>max_agent_iterations\<close> is.
\<close>

theorem run_async_system_access_one_turn:
  assumes "system_access self"
  shows "snd (snd (run_async D B c llm self context_arg rk w))
           = [fst (execute_openai_run D B c llm self context_arg rk w)]"
  using assms by (simp add: run_async_def Let_def split_def)

text \<open>
  Witness for C4: the task stays PENDING and three more iterations are allowed, yet the
  agent with \<open>system_access\<close> makes one invocation.
\<close>

theorem run_async_system_access_one_turn_witness:
  "snd (snd (run_async example_deps example_builtins empty_ctx idle_llm system_agent None
          no_run_kwargs example_world))
     = [fst (execute_openai_run example_deps example_builtins empty_ctx idle_llm system_agent
          None no_run_kwargs example_world)]
   \<and> task_status (task_store (fst (snd (run_async example_deps example_builtins empty_ctx
          idle_llm system_agent None no_run_kwargs example_world))) 0) = PENDING"
  using run_async_system_access_one_turn [of system_agent example_deps example_builtins
      empty_ctx idle_llm None no_run_kwargs example_world]
  by (simp add: system_agent_def one_task_agent_def run_async_def Let_def split_def
      execute_openai_run_def idle_llm_def create_json_artifact_def example_world_def
      sum_task_def)

lemma comprehension_filter:
  "concat (map (\<lambda>x. if P x then [f x] else []) xs) = map f (filter P xs)"
  by (induction xs) simp_all

text \<open>
  C2. For every agent, \<open>run_async\<close> returns the \<open>result\<close> of each task whose status is
  COMPLETED in the world the loop ends in, in task-list order; a task left PENDING or
  FAILED contributes no element.
\<close>

theorem run_async_returns_completed_results:
  "fst (run_async D B c llm self context_arg rk w)
     = [task_result task.
          task \<leftarrow> map (task_store (fst (snd (run_async D B c llm self context_arg rk w))))
                   (agent_tasks self),
          task_status task = COMPLETED]"
  by (simp add: run_async_def Let_def split_def completed_results_def comp_def comprehension_filter)


text \<open>
  The first scenario of section 8 of the specification: one task, the model completes it
  with 5 in the first turn; the loop stops after that turn and returns \<open>[5]\<close>.
\<close>

lemma scenario_completed_first_turn:
  "run_async example_deps example_builtins empty_ctx completing_llm one_task_agent None
     no_run_kwargs example_world
   = ([PyInt 5],
      snd (execute_openai_run example_deps example_builtins empty_ctx completing_llm
             one_task_agent None no_run_kwargs example_world),
      [empty_run])"
  by (simp add: run_async_def Let_def split_def while_pending.simps any_pending_def
      completed_results_def one_task_agent_def execute_openai_run_def completing_llm_def
      create_json_artifact_def)

subsection \<open>The instructions\<close>

lemma numbered_tasks_refs: "snd ` set (numbered_tasks self) \<subseteq> set (agent_tasks self)"
  by (auto simp: numbered_tasks_def in_set_enumerate_eq)

lemma render_tasks_cong:
  assumes "map (task_store w) (agent_tasks self) = map (task_store w') (agent_tasks self)"
  shows "map (\<lambda>(task_id, task). render_task B task_id (task_store w task)) (numbered_tasks self)
       = map (\<lambda>(task_id, task). render_task B task_id (task_store w' task)) (numbered_tasks self)"
proof (rule map_cong [OF refl])
  fix x assume x: "x \<in> set (numbered_tasks self)"
  then have "snd x \<in> set (agent_tasks self)" using numbered_tasks_refs by blast
  with assms have "task_store w (snd x) = task_store w' (snd x)" by (simp add: map_eq_conv)
  then show "(case x of (task_id, task) \<Rightarrow> render_task B task_id (task_store w task))
           = (case x of (task_id, task) \<Rightarrow> render_task B task_id (task_store w' task))"
    by (simp add: split_def)
qed

text \<open>
  C8, as amended. The instruction text is a function of the agent (with its flow, its
  assistant and its context), of the task objects in its task list as they are at the call,
  of the \<open>context\<close> argument and of the ambient instruction list
  \<open>ctx.get("instructions")\<close>: two calls that agree on these give the same text, whatever
  else differs in the world or in the ambient context.
\<close>

theorem get_instructions_deterministic:
  assumes "map (task_store w) (agent_tasks self) = map (task_store w') (agent_tasks self)"
    and "ctx_instructions c = ctx_instructions c'"
  shows "get_instructions B c self w context_arg = get_instructions B c' self w' context_arg"
  by (simp only: get_instructions_def render_INSTRUCTIONS_def
      render_tasks_cong [OF assms(1), of B] assms(2))

text \<open>
  Witness for C8: the same agent and context, worlds that differ outside the agent's task
  list, ambient contexts that differ in the flow only.
\<close>

theorem get_instructions_deterministic_witness:
  "get_instructions example_builtins empty_ctx one_task_agent example_world None
   = get_instructions example_builtins (empty_ctx\<lparr>ctx_flow := Some example_flow\<rparr>)
       one_task_agent other_world None"
  using get_instructions_deterministic [of example_world one_task_agent other_world empty_ctx
      "empty_ctx\<lparr>ctx_flow := Some example_flow\<rparr>" example_builtins None]
  by (simp add: one_task_agent_def other_world_def)

text \<open>
  C8 as stated fails: the agent, its flow, its task list and the context are the same in
  both calls, and the texts differ, because the ambient instruction list differs.
\<close>

theorem ambient_instructions_counterexample:
  "get_instructions example_builtins empty_ctx one_task_agent example_world None
   \<noteq> get_instructions example_builtins french_ctx one_task_agent example_world None"
  by (simp add: get_instructions_def render_INSTRUCTIONS_def empty_ctx_def french_ctx_def
      one_task_agent_def example_flow_def example_assistant_def bullet_def nonempty_text_def
      INSTRUCTIONS_tasks_heading_def nl_def)


subsection \<open>Wrapped tools\<close>

lemma install_tool_final:
  "get_tools install_agent ! 0
     = FunctionToolT ''install'' (Some ''Install a tool.'')
         (PrefectTask install_tool ''install'' (Some ''Install a tool.''))"
  by (simp add: get_tools_eq_build_tools build_tools_def install_agent_def one_task_agent_def
      supplied_tools_def example_flow_def example_assistant_def final_tool_def
      tool_from_function_def install_tool_def)

text \<open>
  C6 fails on the code. \<open>_get_tools\<close> wraps the function \<open>install\<close> of the agent's tool
  list. Called with the keyword argument \<open>tool="hammer"\<close>, the original function returns
  \<open>"hammer"\<close>; the wrapped tool binds the keyword to the parameter \<open>tool\<close> of
  \<open>modified_fn\<close>, calls the original without it and raises \<open>TypeError\<close>.
\<close>

theorem wrapped_tool_keyword_capture:
  "get_tools install_agent ! 0
     = FunctionToolT ''install'' (Some ''Install a tool.'')
         (PrefectTask install_tool ''install'' (Some ''Install a tool.''))
   \<and> call_python_fn example_deps example_builtins empty_ctx idle_llm install_agent
        install_tool [] [(''tool'', PyStr ''hammer'')] example_world
      = (Inr (PyStr ''hammer''), example_world)
   \<and> call_python_fn example_deps example_builtins empty_ctx idle_llm install_agent
        (PrefectTask install_tool ''install'' (Some ''Install a tool.''))
        [] [(''tool'', PyStr ''hammer'')] example_world
      = (Inl TypeError, example_world)"
  by (simp add: install_tool_final)
     (simp add: install_tool_def signature_bind_def apply_defaults_def arg_def
        modified_fn_kwargs_def)

text \<open>
  What does hold: when no keyword argument is named \<open>original_fn\<close> or \<open>tool\<close>, the
  wrapped function returns or raises what the original does, and after a return the world
  differs from the one the original left by one markdown artifact with the key
  \<open>result\<close>.
\<close>

lemma modified_fn_kwargs_id:
  "map_of kwargs ''original_fn'' = None \<Longrightarrow> map_of kwargs ''tool'' = None
     \<Longrightarrow> modified_fn_kwargs kwargs = kwargs"
  unfolding modified_fn_kwargs_def
  by (induction kwargs) (auto split: if_splits)

lemma call_returns_binds:
  assumes "call_python_fn D B c llm self f args kwargs w = (Inr r, w1)"
  shows "\<exists>passed. fn_bind w1 f args kwargs = Inr passed"
proof (cases f)
  case (PyDef n d ps body)
  with assms show ?thesis by (auto split: sum.splits)
next
  case (CompleteTask ref task_id e)
  with assms show ?thesis
    by (auto simp: mark_completed_def complete_params_def split: sum.splits option.splits if_splits)
next
  case (FailTask ref task_id e)
  with assms show ?thesis by (auto split: sum.splits)
next
  case (SubAgentRun a)
  with assms show ?thesis by (auto split: sum.splits)
next
  case (PrefectTask g n d)
  then show ?thesis by simp
qed

lemma modified_fn_preserves_result:
  assumes "map_of kwargs ''original_fn'' = None" and "map_of kwargs ''tool'' = None"
  shows "fst (call_python_fn D B c llm self (PrefectTask f n d) args kwargs w)
           = fst (call_python_fn D B c llm self f args kwargs w)"
proof (cases "call_python_fn D B c llm self f args kwargs w")
  case (Pair out w1)
  show ?thesis
  proof (cases out)
    case (Inl e)
    with Pair assms show ?thesis by (simp add: modified_fn_kwargs_id)
  next
    case (Inr r)
    with Pair call_returns_binds [of D B c llm self f args kwargs w r w1]
    obtain passed where "fn_bind w1 f args kwargs = Inr passed" by auto
    with Pair Inr assms show ?thesis by (simp add: modified_fn_kwargs_id Let_def)
  qed
qed

lemma modified_fn_only_adds_artifact:
  assumes "map_of kwargs ''original_fn'' = None" and "map_of kwargs ''tool'' = None"
    and "call_python_fn D B c llm self f args kwargs w = (Inr r, w1)"
  shows "\<exists>markdown. snd (call_python_fn D B c llm self (PrefectTask f n d) args kwargs w)
           = create_markdown_artifact markdown ''result'' w1"
proof -
  from call_returns_binds [OF assms(3)]
  obtain passed where "fn_bind w1 f args kwargs = Inr passed" by auto
  with assms show ?thesis by (auto simp: modified_fn_kwargs_id Let_def)
qed

subsection \<open>run\_agent\<close>

text \<open>
  The complete tool of a task stores the coerced value, which is what \<open>run_agent\<close>
  returns for a COMPLETED task.
\<close>

lemma complete_task_stores_coerced:
  assumes "task_cast (task_store w ref) = Some cast" and "cast v = Some v'"
  shows "call_python_fn D B c llm self (CompleteTask ref task_id e) [v] [] w
           = (if e then Inl EndRunSignal else Inr PyNone,
              w\<lparr>task_store := (task_store w)
                   (ref := (task_store w ref)\<lparr>task_status := COMPLETED, task_result := v'\<rparr>)\<rparr>)"
  using assms
  by (simp add: signature_bind_def complete_params_def arg_def mark_completed_def)




subsection \<open>Default access\<close>

lemma talk_to_human_tool_distinct:
  "(talk_to_human_tool :: 'e tool) \<noteq> end_run_tool"
  "(talk_to_human_tool :: 'e tool) \<noteq> complete_tool task task_id e"
  "(talk_to_human_tool :: 'e tool) \<noteq> fail_tool task task_id e"
  by (simp_all add: talk_to_human_tool_def end_run_tool_def complete_tool_def fail_tool_def
      create_complete_tool_def create_fail_tool_def tool_from_function_def talk_to_human_def
      end_run_def)

lemma talk_to_human_not_task_tool:
  "(talk_to_human_tool :: 'e tool)
     \<notin> set (concat (map (\<lambda>(task_id, task). [complete_tool task task_id e, fail_tool task task_id e]) nts))"
  by (induction nts) (auto simp: talk_to_human_tool_distinct)

text \<open>
  C10, as amended. An agent constructed without values for \<open>user_access\<close> and
  \<open>system_access\<close> has both flags false. Consequently \<open>_get_tools\<close> appends no
  \<open>talk_to_human\<close> tool to its list (the tool is in the list only if it came with the
  supplied flow, agent or assistant tools), and \<open>run_async\<close> runs the entry turn and then
  the loop over pending tasks.
\<close>

theorem default_access_flags:
  fixes args :: "'e agent_args"
  shows "(let self = new_Agent D c (args\<lparr>arg_user_access := None, arg_system_access := None\<rparr>)
     in user_access self = False \<and> system_access self = False
      \<and> get_tools self
          = map (final_tool self) (supplied_tools self)
            @ (if agent_tasks self = [] then [end_run_tool] else [])
            @ concat (map (\<lambda>(task_id, task).
                        [complete_tool task task_id (length (agent_tasks self) = 1),
                         fail_tool task task_id (length (agent_tasks self) = 1)])
                      (numbered_tasks self))
      \<and> (talk_to_human_tool \<in> set (get_tools self)
            \<longrightarrow> talk_to_human_tool \<in> final_tool self ` set (supplied_tools self))
      \<and> run_async D B c' llm self context_arg rk w
          = (let openai_run = execute_openai_run D B c' llm self context_arg rk;
                 entry = openai_run w;
                 loop = while_pending openai_run self (max_agent_iterations D) 0 (snd entry)
                          [fst entry]
             in (completed_results self (fst loop), loop)))"
proof -
  define self where "self = new_Agent D c (args\<lparr>arg_user_access := None, arg_system_access := None\<rparr>)"
  have flags: "user_access self = False" "system_access self = False"
    by (simp_all add: self_def new_Agent_def default_access_def)
  have tools: "get_tools self
          = map (final_tool self) (supplied_tools self)
            @ (if agent_tasks self = [] then [end_run_tool] else [])
            @ concat (map (\<lambda>(task_id, task).
                        [complete_tool task task_id (length (agent_tasks self) = 1),
                         fail_tool task task_id (length (agent_tasks self) = 1)])
                      (numbered_tasks self))"
    using flags by (simp add: get_tools_eq_build_tools build_tools_def)
  have talk: "talk_to_human_tool \<in> set (get_tools self)
            \<longrightarrow> talk_to_human_tool \<in> final_tool self ` set (supplied_tools self)"
    unfolding tools using talk_to_human_not_task_tool [where 'e = 'e]
    by (auto simp: talk_to_human_tool_distinct)
  have run: "run_async D B c' llm self context_arg rk w
          = (let openai_run = execute_openai_run D B c' llm self context_arg rk;
                 entry = openai_run w;
                 loop = while_pending openai_run self (max_agent_iterations D) 0 (snd entry)
                          [fst entry]
             in (completed_results self (fst loop), loop))"
    using flags by (simp add: run_async_def Let_def split_def)
  show ?thesis
    unfolding Let_def self_def [symmetric] using flags tools talk run by (simp add: Let_def)
qed

text \<open>
  Witness for C10: \<open>Agent()\<close> in an empty ambient context; its tool list is the
  \<open>end_run\<close> tool alone.
\<close>

theorem default_access_flags_witness:
  "user_access (new_Agent example_deps empty_ctx no_agent_args) = False
   \<and> system_access (new_Agent example_deps empty_ctx no_agent_args) = False
   \<and> get_tools (new_Agent example_deps empty_ctx no_agent_args) = [end_run_tool]
   \<and> talk_to_human_tool \<notin> set (get_tools (new_Agent example_deps empty_ctx no_agent_args))"
  using default_access_flags [of example_deps empty_ctx no_agent_args]
  by (simp add: Let_def no_agent_args_def new_Agent_def default_access_def supplied_tools_def
      load_flow_from_ctx_def default_assistant_def empty_ctx_def example_deps_def example_flow_def
      example_assistant_def talk_to_human_tool_distinct numbered_tasks_def default_context_def)

text \<open>
  C10 as stated fails: \<open>Agent()\<close>, constructed with no argument at all inside a flow
  that has \<open>talk_to_human\<close> among its tools, has both flags false and exposes the
  \<open>talk_to_human\<close> tool.
\<close>

theorem ambient_flow_talk_to_human_counterexample:
  "user_access (new_Agent example_deps human_flow_ctx no_agent_args) = False
   \<and> system_access (new_Agent example_deps human_flow_ctx no_agent_args) = False
   \<and> talk_to_human_tool \<in> set (get_tools (new_Agent example_deps human_flow_ctx no_agent_args))"
  by (simp add: get_tools_eq_build_tools build_tools_def new_Agent_def no_agent_args_def
      default_access_def supplied_tools_def load_flow_from_ctx_def default_assistant_def
      human_flow_ctx_def example_flow_def example_deps_def example_assistant_def
      final_tool_created)


subsection \<open>Orchestrator events\<close>

text \<open>
  C9. Each of the five orchestrator event types, as its class declares it (no field
  overridden by the caller), has the persist flag \<open>False\<close>, its own tag, and the
  orchestrator it was given as its back-reference; the error event also carries the error
  it was given, and the two agent-turn events carry the agent.
\<close>

theorem orchestrator_events_unpersisted:
  "new_OrchestratorStart None None orch
     = (Inr (OrchestratorStart ''orchestrator-start'' False orch)
          :: pydantic_error + ('o, 'a, 'x) orchestrator_event)
   \<and> new_OrchestratorEnd None None orch
     = (Inr (OrchestratorEnd ''orchestrator-end'' False orch)
          :: pydantic_error + ('o, 'a, 'x) orchestrator_event)
   \<and> new_OrchestratorError None None orch err
     = (Inr (OrchestratorError ''orchestrator-error'' False orch err)
          :: pydantic_error + ('o, 'a, 'x) orchestrator_event)
   \<and> new_AgentTurnStart None None orch ag
     = (Inr (AgentTurnStart ''agent-turn-start'' False orch ag)
          :: pydantic_error + ('o, 'a, 'x) orchestrator_event)
   \<and> new_AgentTurnEnd None None orch ag
     = (Inr (AgentTurnEnd ''agent-turn-end'' False orch ag)
          :: pydantic_error + ('o, 'a, 'x) orchestrator_event)
   \<and> list_all (\<lambda>ev. persist ev = False \<and> orchestrator ev = orch)
         [OrchestratorStart ''orchestrator-start'' False orch,
          OrchestratorEnd ''orchestrator-end'' False orch,
          OrchestratorError ''orchestrator-error'' False orch err,
          AgentTurnStart ''agent-turn-start'' False orch ag,
          AgentTurnEnd ''agent-turn-end'' False orch (ag :: 'a)
            :: ('o, 'a, 'x) orchestrator_event]
   \<and> error (OrchestratorError ''orchestrator-error'' False orch err
          :: ('o, 'a, 'x) orchestrator_event) = err
   \<and> agent (AgentTurnStart ''agent-turn-start'' False orch ag
          :: ('o, 'a, 'x) orchestrator_event) = ag
   \<and> agent (AgentTurnEnd ''agent-turn-end'' False orch ag
          :: ('o, 'a, 'x) orchestrator_event) = ag"
  by (simp add: new_OrchestratorStart_def new_OrchestratorEnd_def new_OrchestratorError_def
      new_AgentTurnStart_def new_AgentTurnEnd_def literal_field_def bool_field_def)

end
